theory Spec2Isabelle
  imports Main "HOL-Library.Word"
begin

section \<open>JavaScript values as the page script sees them\<close>

text \<open>
  The script \<^verbatim>\<open>frontend/app.js\<close> builds one request to the matching service and
  renders the JSON answer into the page.  A JavaScript string is a sequence of UTF-16
  code units; \<open>asc\<close> writes the ASCII part of a literal, the Thai texts of the script
  are spelled out as code units.
\<close>

type_synonym jsstring = "16 word list"

definition asc :: "string \<Rightarrow> jsstring" where
  "asc s = map of_char s"

text \<open>
  What \<^verbatim>\<open>res.json()\<close> can deliver.  The script never computes with a number of
  the answer: it prints it and it tests whether it is zero.  A number is therefore kept
  as what the script can observe of it, \<open>JNum t nz\<close> being a number whose text
  (the engine's conversion of the double to a string) is \<open>t\<close> and which is nonzero
  exactly when \<open>nz\<close> holds; so every number of a JSON document has its value here,
  whole or fractional, small or large.  An object is the list of its members in the
  order of the document: a later duplicate key wins.  A JavaScript value is a JSON
  value or \<^verbatim>\<open>undefined\<close> (\<open>None\<close>).
\<close>

datatype json =
    JNull
  | JBool bool
  | JNum jsstring bool
  | JStr jsstring
  | JArr "json list"
  | JObj "(jsstring \<times> json) list"

type_synonym jsval = "json option"

datatype error = TypeError | URIError | FetchError

definition bind :: "error + 'a \<Rightarrow> ('a \<Rightarrow> error + 'b) \<Rightarrow> error + 'b" where
  "bind m f = (case m of Inl e \<Rightarrow> Inl e | Inr x \<Rightarrow> f x)"

text \<open>ToBoolean.\<close>

fun truthy :: "jsval \<Rightarrow> bool" where
  "truthy None = False"
| "truthy (Some JNull) = False"
| "truthy (Some (JBool b)) = b"
| "truthy (Some (JNum t nz)) = nz"
| "truthy (Some (JStr s)) = (s \<noteq> [])"
| "truthy (Some (JArr xs)) = True"
| "truthy (Some (JObj kvs)) = True"

text \<open>The operator \<^verbatim>\<open>a || b\<close>.\<close>

definition or_else :: "jsval \<Rightarrow> jsval \<Rightarrow> jsval" where
  "or_else a b = (if truthy a then a else b)"

text \<open>\<^verbatim>\<open>Array.prototype.join\<close> on an array of strings.\<close>

fun join :: "jsstring \<Rightarrow> jsstring list \<Rightarrow> jsstring" where
  "join sep [] = []"
| "join sep [x] = x"
| "join sep (x # y # ys) = x @ sep @ join sep (y # ys)"

text \<open>
  The decimal numeral of a natural number: the text of an array index, of a length and of
  the key column, all far below the range where a double stops being exact.
\<close>

fun digits :: "nat \<Rightarrow> jsstring" where
  "digits n = (if n < 10 then [of_nat (48 + n)]
               else digits (n div 10) @ [of_nat (48 + n mod 10)])"

declare digits.simps [simp del]

text \<open>The number that a \<^verbatim>\<open>length\<close> property holds.\<close>

definition length_value :: "nat \<Rightarrow> json" where
  "length_value n = JNum (digits n) (n \<noteq> 0)"

definition lookup :: "(jsstring \<times> json) list \<Rightarrow> jsstring \<Rightarrow> jsval" where
  "lookup kvs k = map_of (rev kvs) k"

text \<open>
  ToString, as a template literal and the \<^verbatim>\<open>textContent\<close> setter apply it.  An
  object of a JSON document has the inherited \<^verbatim>\<open>toString\<close>, which gives
  \<^verbatim>\<open>[object Object]\<close>, unless it has a member of that name: the member is no
  function, the inherited \<^verbatim>\<open>valueOf\<close> returns the object itself, and the
  conversion throws.  The text of an array joins the texts of its elements with a
  comma, \<^verbatim>\<open>null\<close> elements giving the empty text, and throws when an element
  does.
\<close>

fun ToString :: "json \<Rightarrow> error + jsstring"
  and ToString_elems :: "json list \<Rightarrow> error + jsstring list" where
  "ToString JNull = Inr (asc ''null'')"
| "ToString (JBool b) = Inr (if b then asc ''true'' else asc ''false'')"
| "ToString (JNum t nz) = Inr t"
| "ToString (JStr s) = Inr s"
| "ToString (JArr xs) = bind (ToString_elems xs) (\<lambda>ts. Inr (join (asc '','') ts))"
| "ToString (JObj kvs) =
     (if lookup kvs (asc ''toString'') \<noteq> None then Inl TypeError
      else Inr (asc ''[object Object]''))"
| "ToString_elems [] = Inr []"
| "ToString_elems (x # xs) =
     bind (if x = JNull then Inr [] else ToString x)
       (\<lambda>t. bind (ToString_elems xs) (\<lambda>ts. Inr (t # ts)))"

definition ToStringV :: "jsval \<Rightarrow> error + jsstring" where
  "ToStringV v = (case v of None \<Rightarrow> Inr (asc ''undefined'') | Some j \<Rightarrow> ToString j)"

text \<open>
  Reading a member \<^verbatim>\<open>x.k\<close> for the member names the script uses.  On
  \<^verbatim>\<open>null\<close> and \<^verbatim>\<open>undefined\<close> it throws; a string and an array have a
  \<^verbatim>\<open>length\<close> and none of the other names; a number and a boolean have none.
\<close>

fun get_prop :: "jsval \<Rightarrow> jsstring \<Rightarrow> error + jsval" where
  "get_prop None k = Inl TypeError"
| "get_prop (Some JNull) k = Inl TypeError"
| "get_prop (Some (JObj kvs)) k = Inr (lookup kvs k)"
| "get_prop (Some (JStr s)) k =
     Inr (if k = asc ''length'' then Some (length_value (length s)) else None)"
| "get_prop (Some (JArr xs)) k =
     Inr (if k = asc ''length'' then Some (length_value (length xs)) else None)"
| "get_prop (Some (JBool b)) k = Inr None"
| "get_prop (Some (JNum t nz)) k = Inr None"

text \<open>Reading \<^verbatim>\<open>x[i]\<close> for an index \<open>i\<close> handed out by \<^verbatim>\<open>map\<close>.\<close>

fun get_index :: "jsval \<Rightarrow> nat \<Rightarrow> error + jsval" where
  "get_index None i = Inl TypeError"
| "get_index (Some JNull) i = Inl TypeError"
| "get_index (Some (JArr xs)) i = Inr (if i < length xs then Some (xs ! i) else None)"
| "get_index (Some (JStr s)) i = Inr (if i < length s then Some (JStr [s ! i]) else None)"
| "get_index (Some (JObj kvs)) i = Inr (lookup kvs (digits i))"
| "get_index (Some (JBool b)) i = Inr None"
| "get_index (Some (JNum t nz)) i = Inr None"

text \<open>
  The call \<^verbatim>\<open>x.map((v, i) => ...)\<close>.  Only an array has a callable \<^verbatim>\<open>map\<close>;
  the callback runs on the elements in order and the first exception ends the call.
\<close>

fun map_from :: "nat \<Rightarrow> (json \<Rightarrow> nat \<Rightarrow> error + 'a) \<Rightarrow> json list \<Rightarrow> error + 'a list" where
  "map_from i f [] = Inr []"
| "map_from i f (x # xs) =
     bind (f x i) (\<lambda>y. bind (map_from (Suc i) f xs) (\<lambda>ys. Inr (y # ys)))"

fun array_map :: "jsval \<Rightarrow> (json \<Rightarrow> nat \<Rightarrow> error + 'a) \<Rightarrow> error + 'a list" where
  "array_map (Some (JArr xs)) f = map_from 0 f xs"
| "array_map v f = Inl TypeError"

section \<open>escapeHtml\<close>

text \<open>
  \<^verbatim>\<open>d.textContent = s ?? ""\<close> stores the text of the value (the empty text for
  \<^verbatim>\<open>null\<close> and \<^verbatim>\<open>undefined\<close>) and throws when the value has no text, and
  \<^verbatim>\<open>d.innerHTML\<close> serialises that text node: the ampersand, the no-break space
  and the two angle brackets become entities, every other code unit stays.
\<close>

definition esc_unit :: "16 word \<Rightarrow> jsstring" where
  "esc_unit c =
     (if c = 0x26 then asc ''&amp;''
      else if c = 0xA0 then asc ''&nbsp;''
      else if c = 0x3C then asc ''&lt;''
      else if c = 0x3E then asc ''&gt;''
      else [c])"

definition nullish_empty :: "jsval \<Rightarrow> json" where
  "nullish_empty s = (case s of None \<Rightarrow> JStr [] | Some JNull \<Rightarrow> JStr [] | Some j \<Rightarrow> j)"

definition serialize_text :: "jsstring \<Rightarrow> jsstring" where
  "serialize_text t = concat (map esc_unit t)"

definition escapeHtml :: "jsval \<Rightarrow> error + jsstring" where
  "escapeHtml s = bind (ToString (nullish_empty s)) (\<lambda>t. Inr (serialize_text t))"

section \<open>The request\<close>

text \<open>\<^verbatim>\<open>String.prototype.trim\<close>: white space and line terminators go from both ends.\<close>

definition is_js_whitespace :: "16 word \<Rightarrow> bool" where
  "is_js_whitespace c =
     (c = 0x9 \<or> c = 0xA \<or> c = 0xB \<or> c = 0xC \<or> c = 0xD \<or> c = 0x20 \<or> c = 0xA0
      \<or> c = 0x1680 \<or> (0x2000 \<le> c \<and> c \<le> 0x200A) \<or> c = 0x2028 \<or> c = 0x2029
      \<or> c = 0x202F \<or> c = 0x205F \<or> c = 0x3000 \<or> c = 0xFEFF)"

definition trim :: "jsstring \<Rightarrow> jsstring" where
  "trim s = rev (dropWhile is_js_whitespace (rev (dropWhile is_js_whitespace s)))"

definition default_sheet :: jsstring where
  "default_sheet = [0xE15, 0xE32, 0xE23, 0xE32, 0xE07, 0xE44, 0xE21, 0xE27, 0xE31, 0xE19]"

definition esgSheetName :: jsstring where
  "esgSheetName = [0xE40, 0xE07, 0xE34, 0xE19, 0xE23, 0xE32, 0xE07, 0xE27, 0xE31, 0xE25,
     0xE40, 0xE23, 0xE35, 0xE22, 0xE01, 0xE40, 0xE01, 0xE47, 0xE1A] @ asc '' ESG''"

definition matchKeyCol :: nat where
  "matchKeyCol = 3"

definition esgCols :: jsstring where
  "esgCols = asc ''2,3,5,6,8,14,15''"

definition taxCols :: jsstring where
  "taxCols = asc ''1,2,4,5,7,13,14''"

text \<open>\<^verbatim>\<open>(sheetNameInput.value || "...").trim()\<close>: the default first, the trim after.\<close>

definition sheetName :: "jsstring \<Rightarrow> jsstring" where
  "sheetName v = trim (if v \<noteq> [] then v else default_sheet)"

text \<open>
  \<^verbatim>\<open>encodeURIComponent\<close>: the unreserved ASCII characters stay, every other code
  point is written as the percent-escaped bytes of its UTF-8 form, and a surrogate
  without its partner throws.
\<close>

definition unreserved :: "16 word \<Rightarrow> bool" where
  "unreserved c =
     ((0x41 \<le> c \<and> c \<le> 0x5A) \<or> (0x61 \<le> c \<and> c \<le> 0x7A) \<or> (0x30 \<le> c \<and> c \<le> 0x39)
      \<or> c \<in> set (asc ''-_.!~*'()''))"

definition hex_digit :: "nat \<Rightarrow> 16 word" where
  "hex_digit n = (if n < 10 then of_nat (48 + n) else of_nat (55 + n))"

definition pct :: "nat \<Rightarrow> jsstring" where
  "pct b = [0x25, hex_digit (b div 16), hex_digit (b mod 16)]"

definition utf8 :: "nat \<Rightarrow> nat list" where
  "utf8 cp =
     (if cp < 0x80 then [cp]
      else if cp < 0x800 then [0xC0 + cp div 64, 0x80 + cp mod 64]
      else if cp < 0x10000 then
        [0xE0 + cp div 4096, 0x80 + cp div 64 mod 64, 0x80 + cp mod 64]
      else
        [0xF0 + cp div 262144, 0x80 + cp div 4096 mod 64, 0x80 + cp div 64 mod 64,
         0x80 + cp mod 64])"

definition pair_point :: "16 word \<Rightarrow> 16 word \<Rightarrow> nat" where
  "pair_point hi lo = (unat hi - 0xD800) * 0x400 + (unat lo - 0xDC00) + 0x10000"

fun encodeURIComponent :: "jsstring \<Rightarrow> error + jsstring" where
  "encodeURIComponent [] = Inr []"
| "encodeURIComponent (c # cs) =
    (if unreserved c then bind (encodeURIComponent cs) (\<lambda>r. Inr (c # r))
     else if 0xDC00 \<le> c \<and> c \<le> 0xDFFF then Inl URIError
     else if 0xD800 \<le> c \<and> c \<le> 0xDBFF then
       (case cs of
          [] \<Rightarrow> Inl URIError
        | d # ds \<Rightarrow>
            if 0xDC00 \<le> d \<and> d \<le> 0xDFFF
            then bind (encodeURIComponent ds)
                   (\<lambda>r. Inr (concat (map pct (utf8 (pair_point c d))) @ r))
            else Inl URIError)
     else bind (encodeURIComponent cs) (\<lambda>r. Inr (concat (map pct (utf8 (unat c))) @ r)))"

text \<open>
  \<^verbatim>\<open>API_BASE\<close>: empty when the page is served from port 8000.  The argument is
  \<^verbatim>\<open>window.location.port\<close>, \<open>None\<close> where there is no \<^verbatim>\<open>window\<close>.
\<close>

definition API_BASE :: "jsstring option \<Rightarrow> jsstring" where
  "API_BASE port = (if port = Some (asc ''8000'') then [] else asc ''http://localhost:8000'')"

definition request_url :: "jsstring option \<Rightarrow> jsstring \<Rightarrow> error + jsstring" where
  "request_url port v =
     bind (encodeURIComponent (sheetName v)) (\<lambda>q1.
     bind (encodeURIComponent esgSheetName) (\<lambda>q2.
     bind (encodeURIComponent esgCols) (\<lambda>q3.
     bind (encodeURIComponent taxCols) (\<lambda>q4.
       Inr (API_BASE port @ asc ''/match-columns?sheet_name='' @ q1
            @ asc ''&esg_sheet_name='' @ q2 @ asc ''&esg_cols='' @ q3
            @ asc ''&tax_cols='' @ q4 @ asc ''&match_key_col='' @ digits matchKeyCol
            @ asc ''&case_sensitive=true'')))))"

section \<open>The fixed texts of the page\<close>

definition loading_text :: jsstring where
  "loading_text =
     [0xE01, 0xE33, 0xE25, 0xE31, 0xE07, 0xE40, 0xE17, 0xE35, 0xE22, 0xE1A, 0xE02,
      0xE49, 0xE2D, 0xE21, 0xE39, 0xE25] @ asc ''...''"

definition generic_error_text :: jsstring where
  "generic_error_text =
     [0xE40, 0xE01, 0xE34, 0xE14, 0xE02, 0xE49, 0xE2D, 0xE1C, 0xE34, 0xE14, 0xE1E,
      0xE25, 0xE32, 0xE14]"

definition done_text :: jsstring where
  "done_text =
     [0xE40, 0xE17, 0xE35, 0xE22, 0xE1A, 0xE02, 0xE49, 0xE2D, 0xE21, 0xE39, 0xE25,
      0xE40, 0xE2A, 0xE23, 0xE47, 0xE08, 0xE41, 0xE25, 0xE49, 0xE27]"

definition connect_error_text :: jsstring where
  "connect_error_text =
     [0xE40, 0xE0A, 0xE37, 0xE48, 0xE2D, 0xE21, 0xE15, 0xE48, 0xE2D] @ asc '' API ''
     @ [0xE44, 0xE21, 0xE48, 0xE44, 0xE14, 0xE49]"

definition default_key_label :: jsstring where
  "default_key_label = [0xE40, 0xE25, 0xE02, 0xE16, 0xE31, 0xE07]"

definition th_ordinal :: jsstring where
  "th_ordinal = asc ''<th>'' @ [0xE25, 0xE33, 0xE14, 0xE31, 0xE1A] @ asc ''</th>''"

definition th_mismatch :: jsstring where
  "th_mismatch =
     asc ''<th>''
     @ [0xE02, 0xE49, 0xE2D, 0xE21, 0xE39, 0xE25, 0xE17, 0xE35, 0xE48, 0xE44, 0xE21,
        0xE48, 0xE15, 0xE23, 0xE07]
     @ asc ''</th>''"

definition tax_word :: jsstring where
  "tax_word = [0xE20, 0xE32, 0xE29, 0xE35]"

definition empty_marker :: jsstring where
  "empty_marker = [0x28, 0xE27, 0xE48, 0xE32, 0xE07, 0x29]"

definition entry_sep :: jsstring where
  "entry_sep = [0x20, 0xB7, 0x20]"

definition dash :: jsstring where
  "dash = [0x2014]"

definition summary_1 :: jsstring where
  "summary_1 =
     [0xA] @ asc ''      <p>'' @ [0xE23, 0xE27, 0xE21, 0xE41, 0xE16, 0xE27]
     @ asc '': <strong>''"

definition summary_2 :: jsstring where
  \<open>summary_2 =
     asc ''</strong> ''
     @ [0xB7, 0x20, 0xE15, 0xE23, 0xE07, 0xE17, 0xE38, 0xE01, 0xE04, 0xE2D, 0xE25,
        0xE31, 0xE21, 0xE19, 0xE4C, 0x20, 0x28, 0xE41, 0xE16, 0xE27, 0xE40, 0xE02,
        0xE35, 0xE22, 0xE27]
     @ asc ''): <strong class="ok">''\<close>

definition summary_3 :: jsstring where
  \<open>summary_3 =
     asc ''</strong> ''
     @ [0xB7, 0x20, 0xE21, 0xE35, 0xE04, 0xE2D, 0xE25, 0xE31, 0xE21, 0xE19, 0xE4C,
        0xE44, 0xE21, 0xE48, 0xE15, 0xE23, 0xE07, 0x20, 0x28, 0xE41, 0xE16, 0xE27,
        0xE40, 0xE2B, 0xE25, 0xE37, 0xE2D, 0xE07]
     @ asc ''): <strong class="warn">''\<close>

definition summary_4 :: jsstring where
  \<open>summary_4 =
     asc ''</strong></p>'' @ [0xA] @ asc ''      <p class="hint">''
     @ [0xE40, 0xE07, 0xE37, 0xE48, 0xE2D, 0xE19, 0xE44, 0xE02, 0xE08, 0xE31, 0xE1A,
        0xE04, 0xE39, 0xE48, 0xE41, 0xE16, 0xE27]
     @ asc '': <strong>''\<close>

definition summary_5 :: jsstring where
  "summary_5 =
     asc ''</strong> ''
     @ [0xE40, 0xE1B, 0xE47, 0xE19, 0xE15, 0xE31, 0xE27, 0xE2B, 0xE25, 0xE31, 0xE01]
     @ asc ''</p>'' @ [0xA] @ asc ''    ''"

section \<open>Rendering one row\<close>

text \<open>\<^verbatim>\<open>const rowClass = r.all_match ? "row-ok" : "row-warn"\<close>\<close>

definition rowClass :: "json \<Rightarrow> error + jsstring" where
  "rowClass r =
     bind (get_prop (Some r) (asc ''all_match''))
       (\<lambda>am. Inr (if truthy am then asc ''row-ok'' else asc ''row-warn''))"

text \<open>\<^verbatim>\<open>const ok = r.cells_match && r.cells_match[i]\<close>\<close>

definition cell_ok :: "json \<Rightarrow> nat \<Rightarrow> error + jsval" where
  "cell_ok r i =
     bind (get_prop (Some r) (asc ''cells_match''))
       (\<lambda>cm. if truthy cm then get_index cm i else Inr cm)"

text \<open>
  \<^verbatim>\<open>const tv = r.values_tax && r.values_tax[i] !== undefined ? r.values_tax[i] : ""\<close>
\<close>

definition cell_tv :: "json \<Rightarrow> nat \<Rightarrow> error + json" where
  "cell_tv r i =
     bind (get_prop (Some r) (asc ''values_tax''))
       (\<lambda>vt. if truthy vt
             then bind (get_index vt i) (\<lambda>x. Inr (case x of None \<Rightarrow> JStr [] | Some t \<Rightarrow> t))
             else Inr (JStr []))"

text \<open>\<^verbatim>\<open>const title = !ok ? `ESG: ${v} | ...: ${tv}` : ""\<close>\<close>

definition cell_title :: "jsval \<Rightarrow> json \<Rightarrow> json \<Rightarrow> error + jsstring" where
  "cell_title ok v tv =
     (if \<not> truthy ok
      then bind (ToString v) (\<lambda>a.
           bind (ToString tv) (\<lambda>b.
             Inr (asc ''ESG: '' @ a @ asc '' | '' @ tax_word @ asc '': '' @ b)))
      else Inr [])"

definition cellClass :: "jsval \<Rightarrow> jsstring" where
  "cellClass ok = (if truthy ok then asc ''cell-ok'' else asc ''cell-warn'')"

text \<open>
  \<^verbatim>\<open>`<td class="${ok ? "cell-ok" : "cell-warn"}"${title ? ` title="${escapeHtml(title)}"` : ""}>${escapeHtml(v)}</td>`\<close>
\<close>

definition td :: "jsstring \<Rightarrow> jsstring \<Rightarrow> json \<Rightarrow> error + jsstring" where
  \<open>td cls title v =
     bind (if title \<noteq> []
           then bind (escapeHtml (Some (JStr title))) (\<lambda>t. Inr (asc '' title="'' @ t @ asc ''"''))
           else Inr []) (\<lambda>attr.
     bind (escapeHtml (Some v)) (\<lambda>c.
       Inr (asc ''<td class="'' @ cls @ asc ''"'' @ attr @ asc ''>'' @ c @ asc ''</td>'')))\<close>

text \<open>The callback of \<^verbatim>\<open>(r.values_esg || []).map((v, i) => ...)\<close>.\<close>

definition cell :: "json \<Rightarrow> json \<Rightarrow> nat \<Rightarrow> error + jsstring" where
  "cell r v i =
     bind (cell_ok r i) (\<lambda>ok.
     bind (cell_tv r i) (\<lambda>tv.
     bind (cell_title ok v tv) (\<lambda>title.
       td (cellClass ok) title v)))"

definition cells_array :: "json \<Rightarrow> error + jsstring list" where
  "cells_array r =
     bind (get_prop (Some r) (asc ''values_esg''))
       (\<lambda>ve. array_map (or_else ve (Some (JArr []))) (cell r))"

text \<open>The callback of \<^verbatim>\<open>r.mismatches.map((m) => ...)\<close>.\<close>

definition mismatch_entry :: "json \<Rightarrow> nat \<Rightarrow> error + jsstring" where
  \<open>mismatch_entry m i =
     bind (get_prop (Some m) (asc ''column_label'')) (\<lambda>cl.
     bind (escapeHtml cl) (\<lambda>t1.
     bind (get_prop (Some m) (asc ''esg_value'')) (\<lambda>ev.
     bind (escapeHtml (or_else ev (Some (JStr empty_marker)))) (\<lambda>t2.
     bind (get_prop (Some m) (asc ''tax_value'')) (\<lambda>tv.
     bind (escapeHtml (or_else tv (Some (JStr empty_marker)))) (\<lambda>t3.
       Inr (asc ''<span class="mismatch-label">'' @ t1 @ asc ''</span>: ESG=<strong>'' @ t2
            @ asc ''</strong> '' @ tax_word @ asc ''=<strong>'' @ t3
            @ asc ''</strong>'')))))))\<close>

definition mismatchHtml :: "json \<Rightarrow> error + jsstring" where
  "mismatchHtml r =
     bind (get_prop (Some r) (asc ''mismatches'')) (\<lambda>ms.
     bind (get_prop (or_else ms (Some (JArr []))) (asc ''length'')) (\<lambda>len.
       if truthy len
       then bind (array_map ms mismatch_entry) (\<lambda>es. Inr (join entry_sep es))
       else Inr dash))"

text \<open>The callback of \<^verbatim>\<open>(results || []).map((r) => ...)\<close>.\<close>

definition row_html :: "json \<Rightarrow> nat \<Rightarrow> error + jsstring" where
  \<open>row_html r i =
     bind (rowClass r) (\<lambda>cls.
     bind (cells_array r) (\<lambda>cs.
     bind (mismatchHtml r) (\<lambda>mh.
     bind (get_prop (Some r) (asc ''row'')) (\<lambda>row.
     bind (ToStringV row) (\<lambda>rt.
       Inr (asc ''<tr class="'' @ cls @ asc ''"><td>'' @ rt @ asc ''</td>''
            @ join [] cs @ asc ''<td class="mismatch-cell">'' @ mh
            @ asc ''</td></tr>''))))))\<close>

section \<open>Rendering the answer\<close>

definition render_summary :: "jsval \<Rightarrow> jsval \<Rightarrow> error + jsstring" where
  "render_summary summary match_key_label =
     bind (get_prop summary (asc ''total_rows'')) (\<lambda>total.
     bind (ToStringV total) (\<lambda>t1.
     bind (get_prop summary (asc ''all_match'')) (\<lambda>am.
     bind (ToStringV am) (\<lambda>t2.
     bind (get_prop summary (asc ''has_mismatch'')) (\<lambda>hm.
     bind (ToStringV hm) (\<lambda>t3.
     bind (escapeHtml (or_else match_key_label (Some (JStr default_key_label)))) (\<lambda>t4.
       Inr (summary_1 @ t1 @ summary_2 @ t2 @ summary_3 @ t3 @ summary_4 @ t4
            @ summary_5))))))))"

definition render_thead :: "jsval \<Rightarrow> error + jsstring" where
  "render_thead column_labels =
     bind (array_map (or_else column_labels (Some (JArr [])))
             (\<lambda>x i. bind (escapeHtml (Some x)) (\<lambda>t. Inr (asc ''<th>'' @ t @ asc ''</th>''))))
       (\<lambda>ths. Inr (th_ordinal @ join [] ths @ th_mismatch))"

definition render_body :: "jsval \<Rightarrow> error + jsstring" where
  "render_body results =
     bind (array_map (or_else results (Some (JArr []))) row_html)
       (\<lambda>rows. Inr (join [] rows))"

section \<open>The page and the action\<close>

text \<open>
  The elements the script holds, with what it reads and writes of each: whether a file
  is chosen in each picker, the text of the sheet-name field, the button, the status
  line, the markup last assigned to each of the three containers of the result, and the
  visibility of its section.
\<close>

record page =
  esg_selected :: bool
  tax_selected :: bool
  sheet_value :: jsstring
  btn_disabled :: bool
  status_class :: jsstring
  status_text :: jsstring
  summary_html :: jsstring
  thead_html :: jsstring
  body_html :: jsstring
  section_hidden :: bool

text \<open>
  What \<^verbatim>\<open>fetch\<close> and \<^verbatim>\<open>res.json()\<close> come back with: the request fails, or
  there is a response with its \<^verbatim>\<open>ok\<close> flag and its body, \<open>None\<close> for a body
  that is not JSON (the script then takes the empty object).
\<close>

datatype outcome = FetchRejects | Response bool "json option"

text \<open>
  The statements of the \<^verbatim>\<open>try\<close> block after a successful response.  Each returns
  the page as it stands and the exception, if one was thrown, so that what was written
  before a throw stays written.
\<close>

definition show_result :: "json \<Rightarrow> page \<Rightarrow> page \<times> error option" where
  "show_result data p =
     (let p1 = p\<lparr>status_class := asc ''status success'', status_text := done_text\<rparr> in
      case bind (get_prop (Some data) (asc ''column_labels'')) (\<lambda>cl.
           bind (get_prop (Some data) (asc ''match_key_label'')) (\<lambda>mk.
           bind (get_prop (Some data) (asc ''summary'')) (\<lambda>sm.
           bind (get_prop (Some data) (asc ''results'')) (\<lambda>rs. Inr (cl, mk, sm, rs))))) of
        Inl e \<Rightarrow> (p1, Some e)
      | Inr (column_labels, match_key_label, summary, results) \<Rightarrow>
          (case render_summary summary match_key_label of
             Inl e \<Rightarrow> (p1, Some e)
           | Inr h1 \<Rightarrow>
               let p2 = p1\<lparr>summary_html := h1\<rparr> in
               (case render_thead column_labels of
                  Inl e \<Rightarrow> (p2, Some e)
                | Inr h2 \<Rightarrow>
                    let p3 = p2\<lparr>thead_html := h2\<rparr> in
                    (case render_body results of
                       Inl e \<Rightarrow> (p3, Some e)
                     | Inr h3 \<Rightarrow> (p3\<lparr>body_html := h3, section_hidden := False\<rparr>, None)))))"

text \<open>\<^verbatim>\<open>await res.json().catch(() => ({}))\<close>\<close>

definition json_or_empty :: "json option \<Rightarrow> json" where
  "json_or_empty body = (case body of None \<Rightarrow> JObj [] | Some j \<Rightarrow> j)"

definition try_block :: "outcome \<Rightarrow> page \<Rightarrow> page \<times> error option" where
  "try_block oc p =
     (case oc of
        FetchRejects \<Rightarrow> (p, Some FetchError)
      | Response ok body \<Rightarrow>
          let data = json_or_empty body in
          if \<not> ok then
            let p1 = p\<lparr>status_class := asc ''status error''\<rparr> in
            (case get_prop (Some data) (asc ''detail'') of
               Inl e \<Rightarrow> (p1, Some e)
             | Inr detail \<Rightarrow>
                 (case ToStringV (or_else detail (Some (JStr generic_error_text))) of
                    Inl e \<Rightarrow> (p1, Some e)
                  | Inr t \<Rightarrow> (p1\<lparr>status_text := t\<rparr>, None)))
          else show_result data p)"

text \<open>
  \<^verbatim>\<open>callMatch\<close>, from the click to the end of \<^verbatim>\<open>finally\<close>.  The result is the
  page and the exception that leaves the function, if any: building the URL happens
  before \<^verbatim>\<open>try\<close>, so its exception is not caught and the button stays disabled.
\<close>

definition callMatch :: "jsstring option \<Rightarrow> outcome \<Rightarrow> page \<Rightarrow> page \<times> error option" where
  "callMatch port oc p =
     (if \<not> (esg_selected p \<and> tax_selected p) then (p, None)
      else
        let p1 = p\<lparr>btn_disabled := True, status_class := asc ''status loading'',
                    status_text := loading_text\<rparr> in
        case request_url port (sheet_value p) of
          Inl e \<Rightarrow> (p1, Some e)
        | Inr url \<Rightarrow>
            (case try_block oc p1 of
               (p2, Some e) \<Rightarrow>
                 (p2\<lparr>status_class := asc ''status error'', status_text := connect_error_text,
                     btn_disabled := False\<rparr>, None)
             | (p2, None) \<Rightarrow> (p2\<lparr>btn_disabled := False\<rparr>, None)))"

section \<open>Reference definitions for the statements\<close>




text \<open>
  How a mismatch entry reads for a label and two cell texts, the empty text standing for
  an empty cell: the reference the rendered entry is compared with.  \<open>text_value\<close>
  reads a cell that is a string, \<^verbatim>\<open>null\<close> or absent as its text, and
  \<open>is_mismatch\<close> says that an object carries a given label and cell texts.
\<close>

definition text_value :: "jsval \<Rightarrow> jsstring option" where
  "text_value v =
     (case v of None \<Rightarrow> Some [] | Some JNull \<Rightarrow> Some [] | Some (JStr s) \<Rightarrow> Some s
      | Some j \<Rightarrow> None)"

definition mismatch_text :: "jsstring \<Rightarrow> jsstring \<Rightarrow> jsstring \<Rightarrow> jsstring" where
  \<open>mismatch_text label esg tax =
     asc ''<span class="mismatch-label">'' @ serialize_text label
     @ asc ''</span>: ESG=<strong>''
     @ serialize_text (if esg = [] then empty_marker else esg)
     @ asc ''</strong> '' @ tax_word @ asc ''=<strong>''
     @ serialize_text (if tax = [] then empty_marker else tax)
     @ asc ''</strong>''\<close>

definition is_mismatch :: "json \<Rightarrow> jsstring \<times> jsstring \<times> jsstring \<Rightarrow> bool" where
  "is_mismatch m t =
     (case m of
        JObj fs \<Rightarrow>
          lookup fs (asc ''column_label'') = Some (JStr (fst t))
          \<and> text_value (lookup fs (asc ''esg_value'')) = Some (fst (snd t))
          \<and> text_value (lookup fs (asc ''tax_value'')) = Some (snd (snd t))
      | _ \<Rightarrow> False)"


definition texts :: "json list \<Rightarrow> jsstring list \<Rightarrow> bool" where
  "texts vs ts = list_all2 (\<lambda>v t. ToString v = Inr t) vs ts"

text \<open>Example inputs: a row with two mismatches, one with an empty tax cell.\<close>

definition two_mismatches :: json where
  "two_mismatches = JObj
     [(asc ''mismatches'', JArr
        [JObj [(asc ''column_label'', JStr (asc ''A'')), (asc ''esg_value'', JStr (asc ''x'')),
               (asc ''tax_value'', JStr [])],
         JObj [(asc ''column_label'', JStr (asc ''B'')), (asc ''esg_value'', JNull),
               (asc ''tax_value'', JStr (asc ''<z>''))]])]"

text \<open>
  A row whose \<^verbatim>\<open>values_tax\<close> and \<^verbatim>\<open>cells_match\<close> are longer than its
  \<^verbatim>\<open>values_esg\<close>, and the same row with both cut to that length.
\<close>

definition wide_row :: json where
  "wide_row = JObj
     [(asc ''values_esg'', JArr [JStr (asc ''a''), JStr (asc ''b'')]),
      (asc ''values_tax'', JArr [JStr (asc ''a''), JStr (asc ''c''), JStr (asc ''d'')]),
      (asc ''cells_match'', JArr [JBool True, JBool False, JBool True])]"

definition narrow_row :: json where
  "narrow_row = JObj
     [(asc ''values_esg'', JArr [JStr (asc ''a''), JStr (asc ''b'')]),
      (asc ''values_tax'', JArr [JStr (asc ''a''), JStr (asc ''c'')]),
      (asc ''cells_match'', JArr [JBool True, JBool False])]"

text \<open>A row with one ESG value and neither tax values nor flags.\<close>

definition bare_row :: json where
  "bare_row = JObj [(asc ''values_esg'', JArr [JStr (asc ''x'')])]"

text \<open>
  A page with both files chosen and an empty sheet-name field, before any result, and
  the same page while it shows an earlier result.
\<close>

definition ready_page :: page where
  "ready_page =
     \<lparr>esg_selected = True, tax_selected = True, sheet_value = [], btn_disabled = False,
      status_class = asc ''status'', status_text = [], summary_html = [], thead_html = [],
      body_html = [], section_hidden = True\<rparr>"

definition shown_page :: page where
  "shown_page = ready_page\<lparr>summary_html := asc ''<p>old</p>'', thead_html := asc ''<th>old</th>'',
     body_html := asc ''<tr></tr>'', section_hidden := False\<rparr>"

section \<open>Basic facts\<close>

lemma bind_Inr [simp]: "bind (Inr x) f = f x"
  by (simp add: bind_def)

lemma bind_Inl [simp]: "bind (Inl e) f = Inl e"
  by (simp add: bind_def)

lemma bind_eq_Inr: "bind m f = Inr y \<longleftrightarrow> (\<exists>x. m = Inr x \<and> f x = Inr y)"
  by (cases m) simp_all

section \<open>Escaping\<close>

lemma escapeHtml_str: "escapeHtml (Some (JStr s)) = Inr (serialize_text s)"
  by (simp add: escapeHtml_def nullish_empty_def)

lemma escapeHtml_text:
  "ToString v = Inr t \<Longrightarrow> escapeHtml (Some v) = Inr (serialize_text (if v = JNull then [] else t))"
  by (cases v) (simp_all add: escapeHtml_def nullish_empty_def)










section \<open>Rows and cells\<close>

lemma map_from_cong:
  "(\<And>j. j < length xs \<Longrightarrow> f (xs ! j) (i + j) = g (xs ! j) (i + j))
   \<Longrightarrow> map_from i f xs = map_from i g xs"
proof (induction xs arbitrary: i)
  case Nil
  show ?case by simp
next
  case (Cons x xs)
  have h0: "f x i = g x i"
    using Cons.prems [of 0] by simp
  have "map_from (Suc i) f xs = map_from (Suc i) g xs"
  proof (rule Cons.IH)
    fix j assume "j < length xs"
    then show "f (xs ! j) (Suc i + j) = g (xs ! j) (Suc i + j)"
      using Cons.prems [of "Suc j"] by simp
  qed
  with h0 show ?case by simp
qed


lemma map_from_length: "map_from i f xs = Inr ys \<Longrightarrow> length ys = length xs"
proof (induction xs arbitrary: i ys)
  case Nil
  then show ?case by simp
next
  case (Cons x xs)
  then show ?case
    by (auto simp: bind_def split: sum.splits)
qed

lemma map_from_total:
  "(\<And>j. j < length xs \<Longrightarrow> \<exists>y. f (xs ! j) (i + j) = Inr y) \<Longrightarrow> \<exists>ys. map_from i f xs = Inr ys"
proof (induction xs arbitrary: i)
  case Nil
  show ?case by simp
next
  case (Cons x xs)
  obtain y where y: "f x i = Inr y"
    using Cons.prems [of 0] by auto
  have "\<exists>ys. map_from (Suc i) f xs = Inr ys"
  proof (rule Cons.IH)
    fix j assume "j < length xs"
    then show "\<exists>y. f (xs ! j) (Suc i + j) = Inr y"
      using Cons.prems [of "Suc j"] by simp
  qed
  with y show ?case by auto
qed

lemma map_from_nth_result:
  "map_from i f xs = Inr ys \<Longrightarrow> j < length xs \<Longrightarrow> f (xs ! j) (i + j) = Inr (ys ! j)"
proof (induction xs arbitrary: i ys j)
  case Nil
  then show ?case by simp
next
  case (Cons x xs)
  from Cons.prems(1) obtain y zs where
    y: "f x i = Inr y" and zs: "map_from (Suc i) f xs = Inr zs" and ys: "ys = y # zs"
    by (auto simp: bind_def split: sum.splits)
  show ?case
  proof (cases j)
    case 0
    with y ys show ?thesis by simp
  next
    case (Suc k)
    with Cons.prems(2) have "k < length xs" by simp
    from Cons.IH [OF zs this] show ?thesis
      using Suc ys by simp
  qed
qed


lemma texts_nth: "texts vs ts \<Longrightarrow> i < length vs \<Longrightarrow> ToString (vs ! i) = Inr (ts ! i)"
  unfolding texts_def by (drule list_all2_nthD) simp_all


lemma truthy_get_index: "truthy cm \<Longrightarrow> \<exists>x. get_index cm i = Inr x"
  by (cases "(cm, i)" rule: get_index.cases) simp_all

lemma cell_ok_total: "\<exists>ok. cell_ok (JObj kvs) i = Inr ok"
  using truthy_get_index [of "lookup kvs (asc ''cells_match'')" i]
  by (auto simp: cell_ok_def)


lemma cell_ok_falsy:
  "\<not> truthy (lookup kvs (asc ''cells_match''))
   \<Longrightarrow> cell_ok (JObj kvs) i = Inr (lookup kvs (asc ''cells_match''))"
  by (simp add: cell_ok_def)

lemma cell_tv_array:
  "lookup kvs (asc ''values_tax'') = Some (JArr vt)
   \<Longrightarrow> cell_tv (JObj kvs) i = Inr (if i < length vt then vt ! i else JStr [])"
  by (simp add: cell_tv_def)

lemma cell_tv_falsy:
  "\<not> truthy (lookup kvs (asc ''values_tax'')) \<Longrightarrow> cell_tv (JObj kvs) i = Inr (JStr [])"
  by (simp add: cell_tv_def)


lemma cell_renders:
  assumes v: "ToString v = Inr a"
    and tv: "cell_tv (JObj kvs) i = Inr tv"
    and b: "ToString tv = Inr b"
  shows "\<exists>h. cell (JObj kvs) v i = Inr h"
proof -
  obtain ok where ok: "cell_ok (JObj kvs) i = Inr ok"
    using cell_ok_total by blast
  show ?thesis
    by (cases "truthy ok")
       (simp_all add: cell_def ok tv cell_title_def v b td_def escapeHtml_str
          escapeHtml_text [OF v])
qed





section \<open>The mismatch cell\<close>

lemma escape_or_marker:
  "text_value v = Some e
   \<Longrightarrow> escapeHtml (or_else v (Some (JStr empty_marker)))
       = Inr (serialize_text (if e = [] then empty_marker else e))"
  by (auto simp: text_value_def or_else_def escapeHtml_str split: option.splits json.splits)

lemma mismatch_entry_text:
  "is_mismatch m t \<Longrightarrow> mismatch_entry m i = Inr (mismatch_text (fst t) (fst (snd t)) (snd (snd t)))"
  by (cases m)
     (simp_all add: is_mismatch_def mismatch_entry_def mismatch_text_def escape_or_marker
        escapeHtml_str)

lemma map_from_mismatches:
  "list_all2 is_mismatch ms ts
   \<Longrightarrow> map_from i mismatch_entry ms
       = Inr (map (\<lambda>t. mismatch_text (fst t) (fst (snd t)) (snd (snd t))) ts)"
proof (induction ms ts arbitrary: i rule: list_all2_induct)
  case Nil
  show ?case by simp
next
  case (Cons m ms t ts)
  then show ?case by (simp add: mismatch_entry_text)
qed

text \<open>
  Claim C7.  For a row whose \<^verbatim>\<open>mismatches\<close> is an array of objects with a label
  and string (or empty) cell values, the mismatch cell is the dash when the array is
  empty; otherwise it is the entries in the order of the array, joined by the
  separator, each entry giving the label, the ESG value and the tax value, with the
  marker in place of an empty value.
\<close>

theorem mismatch_cell_entries:
  assumes r: "r = JObj kvs"
    and ms: "lookup kvs (asc ''mismatches'') = Some (JArr ms)"
    and shape: "list_all2 is_mismatch ms ts"
  shows "mismatchHtml r = Inr
     (if ms = [] then dash
      else join entry_sep (map (\<lambda>t. mismatch_text (fst t) (fst (snd t)) (snd (snd t))) ts))"
proof (cases "ms = []")
  case True
  then show ?thesis
    by (simp add: mismatchHtml_def r ms or_else_def length_value_def)
next
  case False
  then show ?thesis
    by (simp add: mismatchHtml_def r ms or_else_def length_value_def
        map_from_mismatches [OF shape])
qed

lemma mismatches_absent:
  "lookup kvs (asc ''mismatches'') = None \<Longrightarrow> mismatchHtml (JObj kvs) = Inr dash"
  by (simp add: mismatchHtml_def or_else_def length_value_def)

theorem mismatch_cell_entries_witness:
  \<open>mismatchHtml two_mismatches = Inr
     (asc ''<span class="mismatch-label">A</span>: ESG=<strong>x</strong> '' @ tax_word
      @ asc ''=<strong>'' @ empty_marker @ asc ''</strong>'' @ entry_sep
      @ asc ''<span class="mismatch-label">B</span>: ESG=<strong>'' @ empty_marker
      @ asc ''</strong> '' @ tax_word @ asc ''=<strong>&lt;z&gt;</strong>'')\<close>
proof -
  let ?m1 = "JObj [(asc ''column_label'', JStr (asc ''A'')), (asc ''esg_value'', JStr (asc ''x'')),
               (asc ''tax_value'', JStr [])]"
  let ?m2 = "JObj [(asc ''column_label'', JStr (asc ''B'')), (asc ''esg_value'', JNull),
               (asc ''tax_value'', JStr (asc ''<z>''))]"
  let ?kvs = "[(asc ''mismatches'', JArr [?m1, ?m2])]"
  let ?ts = "[(asc ''A'', asc ''x'', []), (asc ''B'', [], asc ''<z>'')]"
  have r: "two_mismatches = JObj ?kvs"
    by (simp add: two_mismatches_def)
  have ms: "lookup ?kvs (asc ''mismatches'') = Some (JArr [?m1, ?m2])"
    by (simp add: lookup_def)
  have shape: "list_all2 is_mismatch [?m1, ?m2] ?ts"
    by (simp add: is_mismatch_def lookup_def text_value_def asc_def)
  have e: "empty_marker \<noteq> []"
    by (simp add: empty_marker_def)
  have esc: "serialize_text empty_marker = empty_marker"
    by (simp add: serialize_text_def empty_marker_def esc_unit_def)
  from mismatch_cell_entries [OF r ms shape] show ?thesis
    by (simp add: mismatch_text_def esc e; simp add: serialize_text_def esc_unit_def asc_def)
qed

section \<open>The data cells of a row\<close>

lemma cells_array_cases:
  assumes "cells_array (JObj kvs) = Inr cs"
  shows "(\<not> truthy (lookup kvs (asc ''values_esg'')) \<and> cs = [])
    \<or> (\<exists>vs. lookup kvs (asc ''values_esg'') = Some (JArr vs)
           \<and> map_from 0 (cell (JObj kvs)) vs = Inr cs)"
proof (cases "lookup kvs (asc ''values_esg'')")
  case None
  with assms show ?thesis
    by (simp add: cells_array_def or_else_def)
next
  case (Some j)
  with assms show ?thesis
    by (cases j) (auto simp: cells_array_def or_else_def split: if_splits)
qed

lemma cells_array_length:
  assumes "cells_array (JObj kvs) = Inr cs"
  shows "length cs
    = (case lookup kvs (asc ''values_esg'') of Some (JArr vs) \<Rightarrow> length vs | _ \<Rightarrow> 0)"
  using cells_array_cases [OF assms]
  by (auto dest: map_from_length split: option.splits json.splits)

lemma cell_warn_falsy:
  assumes f: "\<not> truthy (lookup kvs (asc ''cells_match''))"
    and h: "cell (JObj kvs) v i = Inr h"
  shows \<open>\<exists>rest. h = asc ''<td class="cell-warn" title="'' @ rest\<close>
proof -
  from h obtain tv title where
    title: "cell_title (lookup kvs (asc ''cells_match'')) v tv = Inr title"
    and td: "td (cellClass (lookup kvs (asc ''cells_match''))) title v = Inr h"
    by (auto simp: cell_def cell_ok_falsy [OF f] bind_eq_Inr)
  from title f have ne: "title \<noteq> []"
    by (auto simp: cell_title_def bind_eq_Inr asc_def)
  from td ne f show ?thesis
    by (auto simp: td_def cellClass_def bind_eq_Inr asc_def)
qed

lemma cells_render:
  assumes ve: "lookup kvs (asc ''values_esg'') = Some (JArr vs)"
    and te: "texts vs es"
    and tax: "\<And>i. \<exists>tv b. cell_tv (JObj kvs) i = Inr tv \<and> ToString tv = Inr b"
  shows "\<exists>cs. cells_array (JObj kvs) = Inr cs \<and> length cs = length vs"
proof -
  have "\<exists>cs. map_from 0 (cell (JObj kvs)) vs = Inr cs"
  proof (rule map_from_total)
    fix j assume j: "j < length vs"
    obtain tv b where "cell_tv (JObj kvs) (0 + j) = Inr tv" and "ToString tv = Inr b"
      using tax by blast
    with texts_nth [OF te j] show "\<exists>y. cell (JObj kvs) (vs ! j) (0 + j) = Inr y"
      by (rule cell_renders)
  qed
  then obtain cs where cs: "map_from 0 (cell (JObj kvs)) vs = Inr cs"
    by blast
  then have "cells_array (JObj kvs) = Inr cs"
    by (simp add: cells_array_def ve or_else_def)
  with map_from_length [OF cs] show ?thesis by blast
qed

text \<open>
  Claim C10.  Whenever the cells of a row render, there is one data cell per entry of
  \<^verbatim>\<open>values_esg\<close> and none when \<^verbatim>\<open>values_esg\<close> is missing, and they do
  render when the values have texts; cutting \<^verbatim>\<open>values_tax\<close> and
  \<^verbatim>\<open>cells_match\<close> to the length of \<^verbatim>\<open>values_esg\<close> changes nothing; and
  without \<^verbatim>\<open>cells_match\<close> every cell of the row has class \<^verbatim>\<open>cell-warn\<close>.
\<close>

theorem data_cells_follow_values_esg:
  assumes r: "r = JObj kvs"
  shows \<open>(\<forall>vs es vt ts. lookup kvs (asc ''values_esg'') = Some (JArr vs) \<and> texts vs es
             \<and> lookup kvs (asc ''values_tax'') = Some (JArr vt) \<and> texts vt ts
           \<longrightarrow> (\<exists>cs. cells_array r = Inr cs \<and> length cs = length vs))
    \<and> (\<forall>vs es. lookup kvs (asc ''values_esg'') = Some (JArr vs) \<and> texts vs es
             \<and> \<not> truthy (lookup kvs (asc ''values_tax''))
           \<longrightarrow> (\<exists>cs. cells_array r = Inr cs \<and> length cs = length vs))
    \<and> (\<not> truthy (lookup kvs (asc ''values_esg'')) \<longrightarrow> cells_array r = Inr [])
    \<and> (\<forall>cs. cells_array r = Inr cs \<longrightarrow> length cs
          = (case lookup kvs (asc ''values_esg'') of Some (JArr vs) \<Rightarrow> length vs | _ \<Rightarrow> 0))
    \<and> (\<forall>kvs' vs vt cm.
          lookup kvs (asc ''values_esg'') = Some (JArr vs)
          \<and> lookup kvs (asc ''values_tax'') = Some (JArr vt)
          \<and> lookup kvs (asc ''cells_match'') = Some (JArr cm)
          \<and> lookup kvs' (asc ''values_esg'') = Some (JArr vs)
          \<and> lookup kvs' (asc ''values_tax'') = Some (JArr (take (length vs) vt))
          \<and> lookup kvs' (asc ''cells_match'') = Some (JArr (take (length vs) cm))
          \<longrightarrow> cells_array (JObj kvs') = cells_array r)
    \<and> (\<not> truthy (lookup kvs (asc ''cells_match''))
         \<longrightarrow> (\<forall>cs i. cells_array r = Inr cs \<and> i < length cs
                \<longrightarrow> (\<exists>rest. cs ! i = asc ''<td class="cell-warn" title="'' @ rest)))\<close>
proof -
  have a: "\<exists>cs. cells_array r = Inr cs \<and> length cs = length vs"
    if h: "lookup kvs (asc ''values_esg'') = Some (JArr vs) \<and> texts vs es
             \<and> lookup kvs (asc ''values_tax'') = Some (JArr vt) \<and> texts vt ts"
    for vs es vt ts
  proof -
    have "\<exists>tv b. cell_tv (JObj kvs) i = Inr tv \<and> ToString tv = Inr b" for i
      using h texts_nth [of vt ts i] by (auto simp: cell_tv_array)
    with h show ?thesis
      unfolding r by (intro cells_render) auto
  qed
  have a': "\<exists>cs. cells_array r = Inr cs \<and> length cs = length vs"
    if h: "lookup kvs (asc ''values_esg'') = Some (JArr vs) \<and> texts vs es
             \<and> \<not> truthy (lookup kvs (asc ''values_tax''))"
    for vs es
  proof -
    have "\<exists>tv b. cell_tv (JObj kvs) i = Inr tv \<and> ToString tv = Inr b" for i
      using h by (simp add: cell_tv_falsy)
    with h show ?thesis
      unfolding r by (intro cells_render) auto
  qed
  have b: "cells_array r = Inr []" if "\<not> truthy (lookup kvs (asc ''values_esg''))"
    using that by (simp add: cells_array_def r or_else_def)
  have b': "length cs
          = (case lookup kvs (asc ''values_esg'') of Some (JArr vs) \<Rightarrow> length vs | _ \<Rightarrow> 0)"
    if "cells_array r = Inr cs" for cs
    using that cells_array_length [of kvs cs] by (simp add: r)
  have c: "cells_array (JObj kvs') = cells_array r"
    if h: "lookup kvs (asc ''values_esg'') = Some (JArr vs)
          \<and> lookup kvs (asc ''values_tax'') = Some (JArr vt)
          \<and> lookup kvs (asc ''cells_match'') = Some (JArr cm)
          \<and> lookup kvs' (asc ''values_esg'') = Some (JArr vs)
          \<and> lookup kvs' (asc ''values_tax'') = Some (JArr (take (length vs) vt))
          \<and> lookup kvs' (asc ''cells_match'') = Some (JArr (take (length vs) cm))"
    for kvs' vs vt cm
  proof -
    have "cell (JObj kvs') (vs ! j) (0 + j) = cell (JObj kvs) (vs ! j) (0 + j)"
      if "j < length vs" for j
      using that h by (simp add: cell_def cell_ok_def cell_tv_def)
    then have "map_from 0 (cell (JObj kvs')) vs = map_from 0 (cell (JObj kvs)) vs"
      by (rule map_from_cong)
    then show ?thesis
      using h by (simp add: cells_array_def r or_else_def)
  qed
  have d: "\<exists>rest. cs ! i = asc ''<td class=\"cell-warn\" title=\"'' @ rest"
    if f: "\<not> truthy (lookup kvs (asc ''cells_match''))"
      and h: "cells_array r = Inr cs \<and> i < length cs" for cs i
  proof -
    from h cells_array_cases [of kvs cs] obtain vs where
      m: "map_from 0 (cell (JObj kvs)) vs = Inr cs"
      by (auto simp: r)
    from h map_from_length [OF m] have "i < length vs"
      by simp
    with m have "cell (JObj kvs) (vs ! i) (0 + i) = Inr (cs ! i)"
      by (rule map_from_nth_result)
    then show ?thesis
      by (rule cell_warn_falsy [OF f])
  qed
  from a a' b b' c d show ?thesis by blast
qed

theorem data_cells_follow_values_esg_witness:
  \<open>(\<exists>cs. cells_array wide_row = Inr cs \<and> length cs = 2)
   \<and> cells_array narrow_row = cells_array wide_row
   \<and> cells_array (JObj []) = Inr []
   \<and> (\<exists>cs rest. cells_array bare_row = Inr cs \<and> length cs = 1
         \<and> cs ! 0 = asc ''<td class="cell-warn" title="'' @ rest)\<close>
proof -
  let ?kvs = "[(asc ''values_esg'', JArr [JStr (asc ''a''), JStr (asc ''b'')]),
      (asc ''values_tax'', JArr [JStr (asc ''a''), JStr (asc ''c''), JStr (asc ''d'')]),
      (asc ''cells_match'', JArr [JBool True, JBool False, JBool True])]"
  let ?kvs' = "[(asc ''values_esg'', JArr [JStr (asc ''a''), JStr (asc ''b'')]),
      (asc ''values_tax'', JArr [JStr (asc ''a''), JStr (asc ''c'')]),
      (asc ''cells_match'', JArr [JBool True, JBool False])]"
  let ?vs = "[JStr (asc ''a''), JStr (asc ''b'')]"
  let ?bare = "[(asc ''values_esg'', JArr [JStr (asc ''x'')])]"
  have w: "wide_row = JObj ?kvs"
    by (simp add: wide_row_def)
  have n: "narrow_row = JObj ?kvs'"
    by (simp add: narrow_row_def)
  have bare: "bare_row = JObj ?bare"
    by (simp add: bare_row_def)
  have l1: "lookup ?kvs (asc ''values_esg'') = Some (JArr ?vs)"
    by (simp add: lookup_def asc_def)
  have t1: "texts ?vs [asc ''a'', asc ''b'']"
    by (simp add: texts_def)
  have l2: "lookup ?kvs (asc ''values_tax'')
      = Some (JArr [JStr (asc ''a''), JStr (asc ''c''), JStr (asc ''d'')])"
    by (simp add: lookup_def asc_def)
  have t2: "texts [JStr (asc ''a''), JStr (asc ''c''), JStr (asc ''d'')]
      [asc ''a'', asc ''c'', asc ''d'']"
    by (simp add: texts_def)
  have l3: "lookup ?kvs (asc ''cells_match'') = Some (JArr [JBool True, JBool False, JBool True])"
    by (simp add: lookup_def asc_def)
  have l4: "lookup ?kvs' (asc ''values_esg'') = Some (JArr ?vs)"
    by (simp add: lookup_def asc_def)
  have l5: "lookup ?kvs' (asc ''values_tax'')
      = Some (JArr (take (length ?vs) [JStr (asc ''a''), JStr (asc ''c''), JStr (asc ''d'')]))"
    by (simp add: lookup_def asc_def)
  have l6: "lookup ?kvs' (asc ''cells_match'')
      = Some (JArr (take (length ?vs) [JBool True, JBool False, JBool True]))"
    by (simp add: lookup_def asc_def)
  have e1: "\<not> truthy (lookup [] (asc ''values_esg''))"
    by (simp add: lookup_def)
  have b1: "lookup ?bare (asc ''values_esg'') = Some (JArr [JStr (asc ''x'')])"
    by (simp add: lookup_def)
  have b2: "texts [JStr (asc ''x'')] [asc ''x'']"
    by (simp add: texts_def)
  have b3: "\<not> truthy (lookup ?bare (asc ''values_tax''))"
    by (simp add: lookup_def asc_def)
  have b4: "\<not> truthy (lookup ?bare (asc ''cells_match''))"
    by (simp add: lookup_def asc_def)
  note W = data_cells_follow_values_esg [OF w]
  note E = data_cells_follow_values_esg [OF refl [of "JObj []"]]
  note B = data_cells_follow_values_esg [OF bare]
  have "\<exists>cs. cells_array wide_row = Inr cs \<and> length cs = length ?vs"
    using W l1 t1 l2 t2 by blast
  then have p1: "\<exists>cs. cells_array wide_row = Inr cs \<and> length cs = 2"
    by (simp add: numeral_2_eq_2)
  have p2: "cells_array narrow_row = cells_array wide_row"
    using W l1 l2 l3 l4 l5 l6 unfolding n by blast
  have p3: "cells_array (JObj []) = Inr []"
    using E e1 by blast
  have "\<exists>cs. cells_array bare_row = Inr cs \<and> length cs = length [JStr (asc ''x'')]"
    using B b1 b2 b3 by blast
  then obtain cs where cs: "cells_array bare_row = Inr cs" and len: "length cs = 1"
    by auto
  then have "cells_array bare_row = Inr cs \<and> 0 < length cs"
    by simp
  with B b4 have "\<exists>rest. cs ! 0 = asc ''<td class=\"cell-warn\" title=\"'' @ rest"
    by blast
  with cs len have p4: "\<exists>cs rest. cells_array bare_row = Inr cs \<and> length cs = 1
         \<and> cs ! 0 = asc ''<td class=\"cell-warn\" title=\"'' @ rest"
    by blast
  from p1 p2 p3 p4 show ?thesis by blast
qed

section \<open>The action and its error outcomes\<close>

lemma trim_default_sheet: "trim default_sheet = default_sheet"
  by (simp add: trim_def default_sheet_def is_js_whitespace_def)

lemma enc_esgSheetName:
  "encodeURIComponent esgSheetName = Inr (asc ''%E0%B9%80%E0%B8%87%E0%B8%B4%E0%B8%99%E0%B8%A3%E0%B8%B2%E0%B8%87%E0%B8%A7%E0%B8%B1%E0%B8%A5%E0%B9%80%E0%B8%A3%E0%B8%B5%E0%B8%A2%E0%B8%81%E0%B9%80%E0%B8%81%E0%B9%87%E0%B8%9A%20ESG'')"
  by (simp add: esgSheetName_def unreserved_def utf8_def pct_def hex_digit_def asc_def)

lemma enc_esgCols: "encodeURIComponent esgCols = Inr (asc ''2%2C3%2C5%2C6%2C8%2C14%2C15'')"
  by (simp add: esgCols_def unreserved_def utf8_def pct_def hex_digit_def asc_def)

lemma enc_taxCols: "encodeURIComponent taxCols = Inr (asc ''1%2C2%2C4%2C5%2C7%2C13%2C14'')"
  by (simp add: taxCols_def unreserved_def utf8_def pct_def hex_digit_def asc_def)

lemma enc_default_sheet:
  "encodeURIComponent default_sheet = Inr (asc ''%E0%B8%95%E0%B8%B2%E0%B8%A3%E0%B8%B2%E0%B8%87%E0%B9%84%E0%B8%A1%E0%B8%A7%E0%B8%B1%E0%B8%99'')"
  by (simp add: default_sheet_def unreserved_def utf8_def pct_def hex_digit_def asc_def)

lemma request_url_encodable:
  "encodeURIComponent (sheetName v) = Inr q \<Longrightarrow> \<exists>u. request_url port v = Inr u"
  by (simp add: request_url_def enc_esgSheetName enc_esgCols enc_taxCols)

lemma request_url_empty_input: "\<exists>u. request_url port [] = Inr u"
  by (rule request_url_encodable [of _ "asc ''%E0%B8%95%E0%B8%B2%E0%B8%A3%E0%B8%B2%E0%B8%87%E0%B9%84%E0%B8%A1%E0%B8%A7%E0%B8%B1%E0%B8%99''"])
     (simp add: sheetName_def trim_default_sheet enc_default_sheet)

lemma callMatch_rejects:
  assumes "esg_selected p \<and> tax_selected p" and "request_url port (sheet_value p) = Inr u"
  shows "callMatch port FetchRejects p =
     (p\<lparr>btn_disabled := False, status_class := asc ''status error'',
        status_text := connect_error_text\<rparr>, None)"
  using assms by (simp add: callMatch_def try_block_def)

lemma callMatch_not_ok:
  assumes "esg_selected p \<and> tax_selected p" and "request_url port (sheet_value p) = Inr u"
  shows "callMatch port (Response False body) p =
     (p\<lparr>btn_disabled := False, status_class := asc ''status error'',
        status_text :=
          (case get_prop (Some (json_or_empty body)) (asc ''detail'') of
             Inl e \<Rightarrow> connect_error_text
           | Inr d \<Rightarrow>
               if truthy d
               then (case ToStringV d of Inl e \<Rightarrow> connect_error_text | Inr t \<Rightarrow> t)
               else generic_error_text)\<rparr>, None)"
  using assms
  by (simp add: callMatch_def try_block_def or_else_def ToStringV_def split: sum.splits)

text \<open>
  Claim C4.  When the request fails or the response has a non-success status, the
  summary, the header, the body rows and the visibility of the result section are as
  before, the button is enabled again, and only the status line has changed.
\<close>

theorem error_outcome_keeps_display:
  assumes files: "esg_selected p \<and> tax_selected p"
    and url: "request_url port (sheet_value p) = Inr u"
    and err: "oc = FetchRejects \<or> oc = Response False body"
    and res: "callMatch port oc p = (p', x)"
  shows "summary_html p' = summary_html p \<and> thead_html p' = thead_html p
    \<and> body_html p' = body_html p \<and> section_hidden p' = section_hidden p
    \<and> \<not> btn_disabled p' \<and> status_class p' = asc ''status error'' \<and> x = None
    \<and> p' = p\<lparr>btn_disabled := False, status_class := asc ''status error'',
              status_text := status_text p'\<rparr>"
proof -
  from err show ?thesis
  proof
    assume "oc = FetchRejects"
    with res callMatch_rejects [OF files url] show ?thesis by auto
  next
    assume "oc = Response False body"
    with res callMatch_not_ok [OF files url, of body] show ?thesis by auto
  qed
qed

lemma ready_page_reaches_fetch:
  "esg_selected ready_page \<and> tax_selected ready_page"
  "\<exists>u. request_url port (sheet_value ready_page) = Inr u"
  using request_url_empty_input [of port] by (simp_all add: ready_page_def)

lemma shown_page_reaches_fetch:
  "esg_selected shown_page \<and> tax_selected shown_page"
  "\<exists>u. request_url port (sheet_value shown_page) = Inr u"
  using request_url_empty_input [of port] by (simp_all add: shown_page_def ready_page_def)

theorem error_outcome_keeps_display_witness:
  "(\<exists>t. callMatch None (Response False (Some (JObj [(asc ''detail'', JStr (asc ''bad file''))])))
          shown_page
        = (shown_page\<lparr>btn_disabled := False, status_class := asc ''status error'',
                      status_text := t\<rparr>, None))
   \<and> \<not> section_hidden (fst (callMatch None FetchRejects shown_page))
   \<and> body_html (fst (callMatch None FetchRejects shown_page)) = asc ''<tr></tr>''"
proof -
  let ?oc = "Response False (Some (JObj [(asc ''detail'', JStr (asc ''bad file''))]))"
  obtain u where u: "request_url None (sheet_value shown_page) = Inr u"
    using shown_page_reaches_fetch(2) by blast
  note f = shown_page_reaches_fetch(1)
  obtain p1 x1 where r1: "callMatch None ?oc shown_page = (p1, x1)"
    by (cases "callMatch None ?oc shown_page")
  obtain p2 x2 where r2: "callMatch None FetchRejects shown_page = (p2, x2)"
    by (cases "callMatch None FetchRejects shown_page")
  have e1: "?oc = FetchRejects \<or> ?oc = Response False (Some (JObj [(asc ''detail'', JStr (asc ''bad file''))]))"
    by simp
  have e2: "FetchRejects = FetchRejects \<or> FetchRejects = Response False None"
    by simp
  note t1 = error_outcome_keeps_display [OF f u e1 r1]
  note t2 = error_outcome_keeps_display [OF f u e2 r2]
  from t1 have "p1 = shown_page\<lparr>btn_disabled := False, status_class := asc ''status error'',
                      status_text := status_text p1\<rparr> \<and> x1 = None"
    by simp
  with r1 have "\<exists>t. callMatch None ?oc shown_page
        = (shown_page\<lparr>btn_disabled := False, status_class := asc ''status error'',
                      status_text := t\<rparr>, None)"
    by auto
  moreover from t2 r2 have "\<not> section_hidden (fst (callMatch None FetchRejects shown_page))
   \<and> body_html (fst (callMatch None FetchRejects shown_page)) = asc ''<tr></tr>''"
    by (simp add: shown_page_def)
  ultimately show ?thesis by blast
qed





section \<open>Inputs on which the script departs from its description\<close>

text \<open>
  Claim C1, at the input of three spaces.  The default is chosen before the trim, so a
  field of white space only is not replaced by the default: the trimmed name is empty
  and the query carries \<^verbatim>\<open>sheet_name=\<close> with nothing after it.
\<close>

theorem blank_sheet_name_sent:
  "sheetName (asc ''   '') = []
   \<and> request_url None (asc ''   '') = Inr (asc ''http://localhost:8000/match-columns?sheet_name=&esg_sheet_name=%E0%B9%80%E0%B8%87%E0%B8%B4%E0%B8%99%E0%B8%A3%E0%B8%B2%E0%B8%87%E0%B8%A7%E0%B8%B1%E0%B8%A5%E0%B9%80%E0%B8%A3%E0%B8%B5%E0%B8%A2%E0%B8%81%E0%B9%80%E0%B8%81%E0%B9%87%E0%B8%9A%20ESG&esg_cols=2%2C3%2C5%2C6%2C8%2C14%2C15&tax_cols=1%2C2%2C4%2C5%2C7%2C13%2C14&match_key_col=3&case_sensitive=true'')"
proof -
  have s: "sheetName (asc ''   '') = []"
    by (simp add: sheetName_def trim_def is_js_whitespace_def asc_def)
  have d: "digits matchKeyCol = asc ''3''"
    by (simp add: matchKeyCol_def digits.simps asc_def)
  have "request_url None (asc ''   '') = Inr (asc ''http://localhost:8000/match-columns?sheet_name=&esg_sheet_name=%E0%B9%80%E0%B8%87%E0%B8%B4%E0%B8%99%E0%B8%A3%E0%B8%B2%E0%B8%87%E0%B8%A7%E0%B8%B1%E0%B8%A5%E0%B9%80%E0%B8%A3%E0%B8%B5%E0%B8%A2%E0%B8%81%E0%B9%80%E0%B8%81%E0%B9%87%E0%B8%9A%20ESG&esg_cols=2%2C3%2C5%2C6%2C8%2C14%2C15&tax_cols=1%2C2%2C4%2C5%2C7%2C13%2C14&match_key_col=3&case_sensitive=true'')"
    unfolding request_url_def s enc_esgSheetName enc_esgCols enc_taxCols d
    by (simp add: API_BASE_def; simp add: asc_def)
  with s show ?thesis by simp
qed

lemma sheetName_blank_iff:
  "sheetName v = [] \<longleftrightarrow> v \<noteq> [] \<and> (\<forall>c\<in>set v. is_js_whitespace c)"
proof -
  have t: "trim s = [] \<longleftrightarrow> (\<forall>c\<in>set s. is_js_whitespace c)" for s
  proof
    assume "trim s = []"
    then have all: "\<forall>x\<in>set (dropWhile is_js_whitespace s). is_js_whitespace x"
      by (simp add: trim_def dropWhile_eq_Nil_conv)
    have "dropWhile is_js_whitespace s = []"
    proof (rule ccontr)
      assume ne: "dropWhile is_js_whitespace s \<noteq> []"
      then have "\<not> is_js_whitespace (hd (dropWhile is_js_whitespace s))"
        by (rule hd_dropWhile)
      moreover have "hd (dropWhile is_js_whitespace s) \<in> set (dropWhile is_js_whitespace s)"
        using ne by simp
      ultimately show False using all by blast
    qed
    then show "\<forall>c\<in>set s. is_js_whitespace c"
      by (simp add: dropWhile_eq_Nil_conv)
  next
    assume "\<forall>c\<in>set s. is_js_whitespace c"
    then have d: "dropWhile is_js_whitespace s = []"
      by (simp add: dropWhile_eq_Nil_conv)
    show "trim s = []"
      unfolding trim_def d by simp
  qed
  show ?thesis
    by (simp add: sheetName_def t) (simp add: default_sheet_def is_js_whitespace_def)
qed

text \<open>
  Claim C2, at a successful response without \<^verbatim>\<open>summary\<close>.  Reading
  \<^verbatim>\<open>summary.total_rows\<close> throws, the handler of the \<^verbatim>\<open>try\<close> block
  takes over, and the page ends in the error state with the connection text; no part of
  the result is shown.
\<close>

theorem missing_summary_is_error:
  "callMatch None
     (Response True (Some (JObj [(asc ''column_labels'', JArr [JStr (asc ''A'')]),
                                 (asc ''results'', JArr [])])))
     ready_page
   = (ready_page\<lparr>status_class := asc ''status error'', status_text := connect_error_text\<rparr>, None)"
proof -
  obtain u where u: "request_url None (sheet_value ready_page) = Inr u"
    using ready_page_reaches_fetch(2) by blast
  have l: "lookup [(asc ''column_labels'', JArr [JStr (asc ''A'')]), (asc ''results'', JArr [])]
      (asc ''summary'') = None"
    by (simp add: lookup_def asc_def)
  show ?thesis
    using ready_page_reaches_fetch(1) u
    by (simp add: callMatch_def try_block_def json_or_empty_def show_result_def l
        render_summary_def; simp add: ready_page_def)
qed

lemma missing_labels_and_results_default:
  "render_thead None = Inr (th_ordinal @ th_mismatch) \<and> render_body None = Inr []"
  by (simp add: render_thead_def render_body_def or_else_def)

text \<open>
  Claim C3, at three inputs.  A double quote in a cell value ends the \<^verbatim>\<open>title\<close>
  attribute early, since the escaping of text content leaves quotes alone; the summary
  counts and the row ordinal are inserted as they come, without \<open>escapeHtml\<close>.
\<close>

theorem unescaped_insertions:
  \<open>cell (JObj [(asc ''values_tax'', JArr [JStr (asc ''y'')]),
              (asc ''cells_match'', JArr [JBool False])])
        (JStr (asc ''x" onclick="alert(1)'')) 0
     = Inr (asc ''<td class="cell-warn" title="ESG: x" onclick="alert(1) | '' @ tax_word
            @ asc '': y">x" onclick="alert(1)</td>'')
   \<and> render_summary
        (Some (JObj [(asc ''total_rows'', JStr (asc ''<img src=x>'')),
                     (asc ''all_match'', JNum (asc ''0'') False),
                     (asc ''has_mismatch'', JNum (asc ''0'') False)])) None
     = Inr (summary_1 @ asc ''<img src=x>'' @ summary_2 @ asc ''0'' @ summary_3 @ asc ''0''
            @ summary_4 @ default_key_label @ summary_5)
   \<and> row_html (JObj [(asc ''row'', JStr (asc ''<i>'')), (asc ''all_match'', JBool True)]) 0
     = Inr (asc ''<tr class="row-ok"><td><i></td><td class="mismatch-cell">'' @ dash
            @ asc ''</td></tr>'')\<close>
proof -
  have k: "escapeHtml (Some (JStr default_key_label)) = Inr default_key_label"
    by (simp add: escapeHtml_str serialize_text_def default_key_label_def esc_unit_def)
  have a: "cell (JObj [(asc ''values_tax'', JArr [JStr (asc ''y'')]),
              (asc ''cells_match'', JArr [JBool False])])
        (JStr (asc ''x\" onclick=\"alert(1)'')) 0
     = Inr (asc ''<td class=\"cell-warn\" title=\"ESG: x\" onclick=\"alert(1) | '' @ tax_word
            @ asc '': y\">x\" onclick=\"alert(1)</td>'')"
    by (simp add: cell_def cell_ok_def cell_tv_def lookup_def td_def cellClass_def
        cell_title_def escapeHtml_str serialize_text_def esc_unit_def tax_word_def asc_def)
  have b: "render_summary
        (Some (JObj [(asc ''total_rows'', JStr (asc ''<img src=x>'')),
                     (asc ''all_match'', JNum (asc ''0'') False),
                     (asc ''has_mismatch'', JNum (asc ''0'') False)])) None
     = Inr (summary_1 @ asc ''<img src=x>'' @ summary_2 @ asc ''0'' @ summary_3 @ asc ''0''
            @ summary_4 @ default_key_label @ summary_5)"
    by (simp add: render_summary_def lookup_def ToStringV_def or_else_def k; simp add: asc_def)
  have c: "row_html (JObj [(asc ''row'', JStr (asc ''<i>'')), (asc ''all_match'', JBool True)]) 0
     = Inr (asc ''<tr class=\"row-ok\"><td><i></td><td class=\"mismatch-cell\">'' @ dash
            @ asc ''</td></tr>'')"
    by (simp add: row_html_def rowClass_def cells_array_def mismatchHtml_def lookup_def
        or_else_def ToStringV_def length_value_def asc_def)
  from a b c show ?thesis by simp
qed

text \<open>
  Claim C5, at a \<^verbatim>\<open>null\<close> tax value.  The test is against \<^verbatim>\<open>undefined\<close>
  only, so \<^verbatim>\<open>null\<close> reaches the template and the tooltip reads \<^verbatim>\<open>null\<close>.
\<close>

theorem null_tax_value_in_tooltip:
  \<open>cell (JObj [(asc ''values_tax'', JArr [JNull]), (asc ''cells_match'', JArr [JBool False])])
        (JStr (asc ''x'')) 0
     = Inr (asc ''<td class="cell-warn" title="ESG: x | '' @ tax_word
            @ asc '': null">x</td>'')\<close>
  by (simp add: cell_def cell_ok_def cell_tv_def lookup_def td_def cellClass_def
      cell_title_def escapeHtml_str serialize_text_def esc_unit_def tax_word_def asc_def)

lemma tax_value_absent:
  "lookup kvs (asc ''values_tax'') = None \<Longrightarrow> cell_tv (JObj kvs) i = Inr (JStr [])"
  by (simp add: cell_tv_def)

lemma tax_value_short:
  "lookup kvs (asc ''values_tax'') = Some (JArr vt) \<Longrightarrow> length vt \<le> i
   \<Longrightarrow> cell_tv (JObj kvs) i = Inr (JStr [])"
  by (simp add: cell_tv_def)

lemma summary_only_response:
  "callMatch None
     (Response True (Some (JObj [(asc ''summary'',
        JObj [(asc ''total_rows'', JNum (asc ''0'') False),
              (asc ''all_match'', JNum (asc ''0'') False),
              (asc ''has_mismatch'', JNum (asc ''0'') False)])])))
     ready_page
   = (ready_page\<lparr>status_class := asc ''status success'', status_text := done_text,
        summary_html := summary_1 @ asc ''0'' @ summary_2 @ asc ''0'' @ summary_3 @ asc ''0''
          @ summary_4 @ default_key_label @ summary_5,
        thead_html := th_ordinal @ th_mismatch, body_html := [], section_hidden := False\<rparr>,
      None)"
proof -
  obtain u where u: "request_url None (sheet_value ready_page) = Inr u"
    using ready_page_reaches_fetch(2) by blast
  have k: "escapeHtml (Some (JStr default_key_label)) = Inr default_key_label"
    by (simp add: escapeHtml_str serialize_text_def default_key_label_def esc_unit_def)
  have s: "render_summary (Some (JObj [(asc ''total_rows'', JNum (asc ''0'') False),
              (asc ''all_match'', JNum (asc ''0'') False),
              (asc ''has_mismatch'', JNum (asc ''0'') False)])) None
      = Inr (summary_1 @ asc ''0'' @ summary_2 @ asc ''0'' @ summary_3 @ asc ''0''
          @ summary_4 @ default_key_label @ summary_5)"
    by (simp add: render_summary_def lookup_def ToStringV_def or_else_def k; simp add: asc_def)
  show ?thesis
    using ready_page_reaches_fetch(1) u
    by (simp add: callMatch_def try_block_def json_or_empty_def show_result_def lookup_def s
        missing_labels_and_results_default; simp add: ready_page_def asc_def)
qed

end
